theory Spec2Isabelle
  imports Complex_Main
begin

section \<open>METAR to Lattice integration: classification and reconciliation\<close>

text \<open>
  A shallow embedding of \<^verbatim>\<open>metar_lattice_integration.py\<close> and of its modified variant
  \<^verbatim>\<open>WIP-prompt 2/metar_lattice_integration_modified_2.py\<close>. Python floats are
  modelled as reals (every comparison in the code is against an integer constant, which
  is exact on finite floats), Python ints as \<open>int\<close>, \<open>None\<close> as \<open>option\<close>, a raised
  \<open>Exception\<close> as the left summand of a sum type.
\<close>

subsection \<open>Enumerations of the Lattice SDK\<close>

text \<open>
  The enumerations are imported from the Lattice SDK; the datatypes list the members the
  program produces. \<^verbatim>\<open>HealthStatus\<close> has the members \<open>INVALID\<close>, \<open>HEALTHY\<close>, \<open>WARN\<close>,
  \<open>FAIL\<close>, \<open>OFFLINE\<close> and \<open>NOT_READY\<close>. It has no member \<open>ERROR\<close>: evaluating
  \<^verbatim>\<open>HealthStatus.ERROR\<close> raises \<^verbatim>\<open>AttributeError\<close>.
\<close>

datatype HealthStatus = HEALTHY | WARN | FAIL | OFFLINE

datatype Disposition = ASSUMED_FRIENDLY | SUSPICIOUS | HOSTILE

datatype Environment = AIR | SURFACE

text \<open>
  The four-level vocabulary of the specification. The SDK's name for the most severe
  level is \<open>FAIL\<close>; \<open>health_band\<close> reads it as the specification's \<open>BAND_ERROR\<close>.
\<close>

datatype HealthBand = BAND_HEALTHY | BAND_WARN | BAND_ERROR | BAND_OFFLINE

fun health_band :: "HealthStatus \<Rightarrow> HealthBand" where
  "health_band HEALTHY = BAND_HEALTHY"
| "health_band WARN = BAND_WARN"
| "health_band FAIL = BAND_ERROR"
| "health_band OFFLINE = BAND_OFFLINE"

text \<open>Exceptions (subclasses of \<^verbatim>\<open>Exception\<close>) that the modelled code can meet.\<close>

datatype exn = KeyError string | AttributeError string | SinkError string

subsection \<open>FlightConditions\<close>

text \<open>\<^verbatim>\<open>FlightConditions.determine_flight_conditions(visibility_miles, ceiling_feet)\<close>\<close>

definition determine_flight_conditions :: "real \<Rightarrow> int option \<Rightarrow> string" where
  "determine_flight_conditions visibility_miles ceiling_feet =
     (let ceiling_feet = (case ceiling_feet of None \<Rightarrow> 10000 | Some c \<Rightarrow> c) in
      if ceiling_feet < 500 \<or> visibility_miles < 1 then ''LIFR''
      else if ceiling_feet < 1000 \<or> visibility_miles < 3 then ''IFR''
      else if ceiling_feet < 3000 \<or> visibility_miles < 5 then ''MVFR''
      else ''VFR'')"

text \<open>\<^verbatim>\<open>FlightConditions.get_disposition_for_condition(flight_condition)\<close>\<close>

definition get_disposition_for_condition :: "string \<Rightarrow> Disposition" where
  "get_disposition_for_condition flight_condition =
     (if flight_condition = ''VFR'' then ASSUMED_FRIENDLY
      else if flight_condition = ''MVFR'' then SUSPICIOUS
      else HOSTILE)"

subsection \<open>MetarApiClient: from the parsed report to the flight condition\<close>

record cloud_layer =
  coverage :: string
  altitude_ft :: "int option"

text \<open>
  \<^verbatim>\<open>_get_ceiling_feet\<close>: the first broken or overcast layer whose altitude is truthy
  (neither \<open>None\<close> nor zero).
\<close>

fun get_ceiling_feet :: "cloud_layer list \<Rightarrow> int option" where
  "get_ceiling_feet [] = None"
| "get_ceiling_feet (layer # cloud_layers) =
     (if coverage layer \<in> set [''BKN'', ''OVC'']
         \<and> altitude_ft layer \<noteq> None \<and> altitude_ft layer \<noteq> Some 0
      then altitude_ft layer
      else get_ceiling_feet cloud_layers)"

text \<open>
  Python's \<^verbatim>\<open>x or 10.0\<close> on an optional float: the right operand is taken whenever
  the left one is falsy, which \<open>None\<close> is and \<open>0.0\<close> is too.
\<close>

definition or_default :: "real option \<Rightarrow> real \<Rightarrow> real" where
  "or_default x d =
     (case x of None \<Rightarrow> d | Some v \<Rightarrow> if v = 0 then d else v)"

text \<open>
  Lines 175 to 182 of \<^verbatim>\<open>get_metar_data\<close> (and lines 270 to 273 of
  \<^verbatim>\<open>_process_metar_data\<close> in the first variant): the flight condition stored with the
  observation.
\<close>

definition observation_flight_condition :: "real option \<Rightarrow> cloud_layer list \<Rightarrow> string" where
  "observation_flight_condition visibility cloud_layers =
     (let ceiling_feet = get_ceiling_feet cloud_layers;
          visibility_miles = or_default visibility 10.0
      in determine_flight_conditions visibility_miles ceiling_feet)"

subsection \<open>Health bands of the modified variant\<close>

text \<open>\<^verbatim>\<open>_get_health_status_for_condition\<close>\<close>

definition get_health_status_for_condition :: "string \<Rightarrow> HealthStatus" where
  "get_health_status_for_condition condition =
     (if condition = ''VFR'' then HEALTHY
      else if condition = ''MVFR'' then WARN
      else if condition = ''IFR'' then FAIL
      else if condition = ''LIFR'' then FAIL
      else OFFLINE)"

text \<open>\<^verbatim>\<open>_get_health_status_for_temperature\<close>\<close>

definition get_health_status_for_temperature :: "real \<Rightarrow> HealthStatus" where
  "get_health_status_for_temperature temp_c =
     (if temp_c < -20 \<or> temp_c > 40 then FAIL
      else if temp_c < -10 \<or> temp_c > 35 then WARN
      else HEALTHY)"

text \<open>
  \<^verbatim>\<open>_get_health_status_for_wind\<close>: its first branch returns \<^verbatim>\<open>HealthStatus.ERROR\<close>,
  which is not a member of the enumeration, so that branch raises.
\<close>

definition get_health_status_for_wind :: "real \<Rightarrow> exn + HealthStatus" where
  "get_health_status_for_wind wind_kt =
     (if wind_kt > 30 then Inl (AttributeError ''ERROR'')
      else if wind_kt > 15 then Inr WARN
      else Inr HEALTHY)"

text \<open>\<^verbatim>\<open>_get_health_status_for_visibility\<close>\<close>

definition get_health_status_for_visibility :: "real \<Rightarrow> HealthStatus" where
  "get_health_status_for_visibility visibility_miles =
     (if visibility_miles < 1 then FAIL
      else if visibility_miles < 5 then WARN
      else HEALTHY)"

subsection \<open>Values the program takes from outside\<close>

text \<open>
  The Lattice SDK and Python's float formatting are not part of the repository. What the
  source reads from them is a parameter of the model: the class attribute
  \<^verbatim>\<open>Entity.entity_id\<close>, the format \<^verbatim>\<open>:.1f\<close> and \<^verbatim>\<open>str\<close> on a float.
\<close>

record externals =
  Entity_entity_id :: string
  format_1f :: "real \<Rightarrow> string"
  str_float :: "real \<Rightarrow> string"

text \<open>Values stored in an airport dictionary, and how an f-string prints them.\<close>

datatype pyval = PyStr string | PyFloat real

fun py_str :: "externals \<Rightarrow> pyval \<Rightarrow> string" where
  "py_str ext (PyStr s) = s"
| "py_str ext (PyFloat x) = str_float ext x"

type_synonym airport = "(string \<times> pyval) list"

text \<open>\<^verbatim>\<open>airport[key]\<close>: raises \<^verbatim>\<open>KeyError\<close> on a missing key.\<close>

definition subscript :: "airport \<Rightarrow> string \<Rightarrow> exn + pyval" where
  "subscript d key = (case map_of d key of None \<Rightarrow> Inl (KeyError key) | Some v \<Rightarrow> Inr v)"

text \<open>
  The weather dictionary of one station as \<^verbatim>\<open>get_metar_data\<close> builds it, with the keys
  the publishing code reads. \<open>error\<close> and \<open>flight_condition\<close> are \<open>None\<close> when the key
  is missing, and hold a string otherwise (\<^verbatim>\<open>'error' in data\<close> is \<open>error data \<noteq> None\<close>;
  \<^verbatim>\<open>get_metar_data\<close> stores the string that \<^verbatim>\<open>determine_flight_conditions\<close> returns). A
  measurement is \<open>None\<close> when the key is missing or holds \<^verbatim>\<open>None\<close>, which
  \<^verbatim>\<open>weather.get\<close> does not tell apart.
\<close>

record weather =
  error :: "string option"
  flight_condition :: "string option"
  temperature_c :: "real option"
  wind_speed_kt :: "real option"
  visibility_miles :: "real option"

subsection \<open>The published entity\<close>

datatype Template = SENSOR_POINT_OF_INTEREST

record ComponentMessage =
  message :: string
  status :: HealthStatus

record ComponentHealth =
  component_id :: string
  component_name :: string
  component_health :: HealthStatus
  messages :: "ComponentMessage list"

record Health =
  health_status :: HealthStatus
  components :: "ComponentHealth list"

record Position =
  latitude_degrees :: pyval
  longitude_degrees :: pyval

record MilView =
  disposition :: Disposition
  environment :: Environment

record Ontology =
  template :: Template
  platform_type :: string

record Provenance =
  integration_name :: string
  data_type :: string
  source_update_time :: int

record Entity =
  entity_id :: string
  description :: string
  created_time :: int
  expiry_time :: int
  is_live :: bool
  aliases_name :: string
  location_position :: Position
  mil_view :: MilView
  ontology :: Ontology
  health :: Health
  provenance :: Provenance

text \<open>The degree sign of the temperature message, as its two UTF-8 bytes.\<close>

definition degree_sign :: string where
  "degree_sign = [CHR 0xC2, CHR 0xB0]"

text \<open>
  \<^verbatim>\<open>LatticeWeatherIntegration.create_weather_entity(icao, airport, weather)\<close>; times are
  seconds, \<open>time_now\<close> is the reading of the clock. The exceptions come in the order of
  the source: \<^verbatim>\<open>airport['name']\<close> for the description, the wind evaluator, then
  \<^verbatim>\<open>airport['lat']\<close> and \<^verbatim>\<open>airport['lon']\<close> when the entity is built.
\<close>

definition create_weather_entity ::
  "externals \<Rightarrow> int \<Rightarrow> string \<Rightarrow> airport \<Rightarrow> weather \<Rightarrow> exn + Entity" where
  "create_weather_entity ext time_now icao airport weather =
     (let expiry_time = time_now + 2 * 3600;
          flight_condition =
            (case flight_condition weather of None \<Rightarrow> ''Unknown'' | Some fc \<Rightarrow> fc);
          temperature_c = temperature_c weather;
          temperature_f = map_option (\<lambda>c. (c * 9 / 5) + 32) temperature_c
      in case subscript airport ''name'' of
           Inl e \<Rightarrow> Inl e
         | Inr name \<Rightarrow>
      let description = py_str ext name @ '' ('' @ icao @ '') - '' @ flight_condition;
          disposition = get_disposition_for_condition flight_condition;
          health_components = [];
          health_components = health_components @
            (if flight_condition \<noteq> [] then
               let condition_status = get_health_status_for_condition flight_condition in
               [\<lparr>component_id = icao @ ''_flight_condition'',
                 component_name = ''Flight Condition'',
                 component_health = condition_status,
                 messages = [\<lparr>message = ''Current flight condition: '' @ flight_condition,
                              status = condition_status\<rparr>]\<rparr>]
             else []);
          health_components = health_components @
            (case (temperature_c, temperature_f) of
               (Some c, Some f) \<Rightarrow>
                 let temp_status = get_health_status_for_temperature c in
                 [\<lparr>component_id = Entity_entity_id ext,
                   component_name = ''Temperature'',
                   component_health = temp_status,
                   messages = [\<lparr>message = ''Current temperature: '' @ format_1f ext c
                                  @ degree_sign @ ''C ('' @ format_1f ext f @ degree_sign @ ''F)'',
                                status = temp_status\<rparr>]\<rparr>]
             | _ \<Rightarrow> []);
          wind_speed = wind_speed_kt weather
      in case (case wind_speed of
                 Some w \<Rightarrow>
                   (case get_health_status_for_wind w of
                      Inl e \<Rightarrow> Inl e
                    | Inr wind_status \<Rightarrow>
                        Inr [\<lparr>component_id = Entity_entity_id ext,
                              component_name = ''Wind Speed'',
                              component_health = wind_status,
                              messages = [\<lparr>message = ''Current wind speed: ''
                                             @ str_float ext w @ '' knots'',
                                           status = wind_status\<rparr>]\<rparr>])
               | None \<Rightarrow> Inr []) of
           Inl e \<Rightarrow> Inl e
         | Inr wind_component \<Rightarrow>
      let health_components = health_components @ wind_component;
          visibility = visibility_miles weather;
          health_components = health_components @
            (case visibility of
               Some v \<Rightarrow>
                 let visibility_status = get_health_status_for_visibility v in
                 [\<lparr>component_id = Entity_entity_id ext,
                   component_name = ''Visibility'',
                   component_health = visibility_status,
                   messages = [\<lparr>message = ''Current visibility: '' @ str_float ext v @ '' miles'',
                                status = visibility_status\<rparr>]\<rparr>]
             | None \<Rightarrow> []);
          overall_health_status = get_health_status_for_condition flight_condition
      in case subscript airport ''lat'' of
           Inl e \<Rightarrow> Inl e
         | Inr lat \<Rightarrow>
         (case subscript airport ''lon'' of
           Inl e \<Rightarrow> Inl e
         | Inr lon \<Rightarrow>
             Inr \<lparr>entity_id = ''weather_'' @ icao,
                  description = description,
                  created_time = time_now,
                  expiry_time = expiry_time,
                  is_live = True,
                  aliases_name = py_str ext name @ '' ('' @ icao @ '')'',
                  location_position = \<lparr>latitude_degrees = lat, longitude_degrees = lon\<rparr>,
                  mil_view = \<lparr>disposition = disposition, environment = AIR\<rparr>,
                  ontology = \<lparr>template = SENSOR_POINT_OF_INTEREST, platform_type = ''RADAR''\<rparr>,
                  health = \<lparr>health_status = overall_health_status,
                            components = health_components\<rparr>,
                  provenance = \<lparr>integration_name = ''METAR-Weather-Integration'',
                                data_type = ''aviation_weather'',
                                source_update_time = time_now\<rparr>\<rparr>))"

subsection \<open>Publishing one batch\<close>

text \<open>
  The sink is outside the program: \<open>sink entity\<close> is \<open>None\<close> when the remote call
  succeeds and the exception it raises otherwise. The list \<open>sent\<close> records, in order,
  the entities handed to the sink.

  \<^verbatim>\<open>publish_entity\<close> logs the exception and raises it again.
\<close>

definition publish_entity ::
  "(Entity \<Rightarrow> exn option) \<Rightarrow> Entity list \<Rightarrow> Entity \<Rightarrow> Entity list \<times> (exn + unit)" where
  "publish_entity sink sent entity =
     (sent @ [entity], case sink entity of None \<Rightarrow> Inr () | Some e \<Rightarrow> Inl e)"

text \<open>
  The body of the \<^verbatim>\<open>try\<close> in \<^verbatim>\<open>publish_weather_entities\<close> for one station:
  \<open>Inr False\<close> is \<^verbatim>\<open>continue\<close>, \<open>Inr True\<close> is reaching \<^verbatim>\<open>count += 1\<close>, \<open>Inl e\<close>
  is the exception \<open>e\<close> leaving the body. \<open>clock icao\<close> is the time read while the
  entity of station \<open>icao\<close> is built.
\<close>

definition station_body ::
  "externals \<Rightarrow> (string \<Rightarrow> int) \<Rightarrow> (string \<times> airport) list \<Rightarrow> (Entity \<Rightarrow> exn option)
     \<Rightarrow> string \<Rightarrow> weather \<Rightarrow> Entity list \<Rightarrow> Entity list \<times> (exn + bool)" where
  "station_body ext clock airports sink icao data sent =
     (if error data \<noteq> None then (sent, Inr False)
      else case map_of airports icao of
             None \<Rightarrow> (sent, Inr False)
           | Some airport \<Rightarrow>
               if airport = [] then (sent, Inr False)
               else (case create_weather_entity ext (clock icao) icao airport data of
                       Inl e \<Rightarrow> (sent, Inl e)
                     | Inr entity \<Rightarrow>
                         (case publish_entity sink sent entity of
                            (sent', Inl e) \<Rightarrow> (sent', Inl e)
                          | (sent', Inr _) \<Rightarrow> (sent', Inr True))))"

text \<open>
  The \<^verbatim>\<open>for\<close> loop over \<^verbatim>\<open>metar_data.items()\<close> with its \<^verbatim>\<open>except Exception\<close>,
  from a given \<open>count\<close>; the dictionary is the list of its items in order.
\<close>

fun publish_loop ::
  "externals \<Rightarrow> (string \<Rightarrow> int) \<Rightarrow> (string \<times> airport) list \<Rightarrow> (Entity \<Rightarrow> exn option)
     \<Rightarrow> nat \<Rightarrow> Entity list \<Rightarrow> (string \<times> weather) list \<Rightarrow> Entity list \<times> (exn + nat)" where
  "publish_loop ext clock airports sink count sent [] = (sent, Inr count)"
| "publish_loop ext clock airports sink count sent ((icao, data) # rest) =
     (case station_body ext clock airports sink icao data sent of
        (sent', Inl e) \<Rightarrow> publish_loop ext clock airports sink count sent' rest
      | (sent', Inr False) \<Rightarrow> publish_loop ext clock airports sink count sent' rest
      | (sent', Inr True) \<Rightarrow> publish_loop ext clock airports sink (count + 1) sent' rest)"

text \<open>\<^verbatim>\<open>LatticeWeatherIntegration.publish_weather_entities(metar_data)\<close>\<close>

definition publish_weather_entities ::
  "externals \<Rightarrow> (string \<Rightarrow> int) \<Rightarrow> (string \<times> airport) list \<Rightarrow> (Entity \<Rightarrow> exn option)
     \<Rightarrow> (string \<times> weather) list \<Rightarrow> Entity list \<times> (exn + nat)" where
  "publish_weather_entities ext clock airports sink metar_data =
     publish_loop ext clock airports sink 0 [] metar_data"

subsection \<open>The integration loops\<close>

text \<open>
  What the body of one iteration does is decided outside the program (the network, the
  operator's keyboard): it runs to its end, raises an \<^verbatim>\<open>Exception\<close>, or is hit by a
  \<^verbatim>\<open>KeyboardInterrupt\<close>. A loop is run on the list of the outcomes of its first
  iterations and yields what it does during them.
\<close>

datatype cycle_outcome = Completed | RaisedException | RaisedKeyboardInterrupt

datatype loop_event = Cycle | LogError | Sleep int | Break | Propagated

text \<open>
  \<^verbatim>\<open>run_integration(update_interval_minutes)\<close> of \<^verbatim>\<open>metar_lattice_integration.py\<close>:
  the normal sleep ends the \<^verbatim>\<open>try\<close> body, the handler of \<^verbatim>\<open>Exception\<close> sleeps 300
  seconds, the handler of \<^verbatim>\<open>KeyboardInterrupt\<close> leaves the loop.
\<close>

fun run_integration :: "int \<Rightarrow> cycle_outcome list \<Rightarrow> loop_event list" where
  "run_integration update_interval_minutes [] = []"
| "run_integration update_interval_minutes (Completed # rest) =
     [Cycle, Sleep (update_interval_minutes * 60)] @ run_integration update_interval_minutes rest"
| "run_integration update_interval_minutes (RaisedException # rest) =
     [Cycle, LogError, Sleep 300] @ run_integration update_interval_minutes rest"
| "run_integration update_interval_minutes (RaisedKeyboardInterrupt # rest) =
     [Cycle, Break]"

text \<open>
  \<^verbatim>\<open>start()\<close> of the modified variant: the handler of \<^verbatim>\<open>Exception\<close> only logs, the
  sleep follows the \<^verbatim>\<open>try\<close> statement, and a \<^verbatim>\<open>KeyboardInterrupt\<close> is not handled
  in the loop.
\<close>

fun start :: "int \<Rightarrow> cycle_outcome list \<Rightarrow> loop_event list" where
  "start update_interval_minutes [] = []"
| "start update_interval_minutes (Completed # rest) =
     [Cycle, Sleep (update_interval_minutes * 60)] @ start update_interval_minutes rest"
| "start update_interval_minutes (RaisedException # rest) =
     [Cycle, LogError, Sleep (update_interval_minutes * 60)] @ start update_interval_minutes rest"
| "start update_interval_minutes (RaisedKeyboardInterrupt # rest) =
     [Cycle, Propagated]"

subsection \<open>Concrete inputs\<close>

definition example_externals :: externals where
  "example_externals =
     \<lparr>Entity_entity_id = ''Entity.entity_id'',
      format_1f = (\<lambda>x. ''#.#''), str_float = (\<lambda>x. ''#'')\<rparr>"

definition example_airport :: airport where
  "example_airport = [(''name'', PyStr ''Bangor International Airport''),
                      (''lat'', PyFloat 44.8), (''lon'', PyFloat (-68.8))]"

definition example_weather :: weather where
  "example_weather = \<lparr>error = None, flight_condition = Some ''MVFR'',
                       temperature_c = Some 12, wind_speed_kt = Some 8,
                       visibility_miles = Some 4\<rparr>"

definition sparse_weather :: weather where
  "sparse_weather = \<lparr>error = None, flight_condition = Some ''VFR'',
                      temperature_c = None, wind_speed_kt = None,
                      visibility_miles = Some 10\<rparr>"

definition example_airports :: "(string \<times> airport) list" where
  "example_airports =
     [(''KBOS'', [(''name'', PyStr ''Logan International Airport'')]),
      (''KPWM'', example_airport),
      (''KBGR'', example_airport)]"

definition example_sink :: "Entity \<Rightarrow> exn option" where
  "example_sink entity =
     (if entity_id entity = ''weather_KPWM'' then Some (SinkError ''unavailable'') else None)"

definition example_clock :: "string \<Rightarrow> int" where
  "example_clock icao = 0"

definition example_metar_data :: "(string \<times> weather) list" where
  "example_metar_data =
     [(''KBOS'', example_weather), (''KPWM'', example_weather), (''KBGR'', example_weather)]"

subsection \<open>What one station contributes to a batch\<close>

text \<open>
  The two notions in which the isolation of failures is stated; they are written from the
  specification's wording, to be compared with the loop above. \<open>station_attempt\<close> is what
  a station standing alone hands to the sink: its entity, unless the station is skipped
  (an error entry, an unknown or empty airport) or its synthesis raises.
  \<open>station_published\<close> holds when that publish succeeds. Neither looks at any other
  station of the batch.
\<close>

definition station_attempt ::
  "externals \<Rightarrow> (string \<Rightarrow> int) \<Rightarrow> (string \<times> airport) list \<Rightarrow> string \<times> weather
     \<Rightarrow> Entity list" where
  "station_attempt ext clock airports station =
     (case station of (icao, data) \<Rightarrow>
        if error data \<noteq> None then []
        else case map_of airports icao of
               None \<Rightarrow> []
             | Some airport \<Rightarrow>
                 if airport = [] then []
                 else (case create_weather_entity ext (clock icao) icao airport data of
                         Inl e \<Rightarrow> []
                       | Inr entity \<Rightarrow> [entity]))"

definition station_published ::
  "externals \<Rightarrow> (string \<Rightarrow> int) \<Rightarrow> (string \<times> airport) list \<Rightarrow> (Entity \<Rightarrow> exn option)
     \<Rightarrow> string \<times> weather \<Rightarrow> bool" where
  "station_published ext clock airports sink station =
     (list_ex (\<lambda>entity. sink entity = None) (station_attempt ext clock airports station))"

section \<open>Properties\<close>

subsection \<open>Flight category\<close>

text \<open>
  C1. For every visibility \<open>v\<close> and ceiling \<open>c\<close> (an absent ceiling read as 10000),
  \<open>determine_flight_conditions\<close> returns LIFR exactly when the ceiling is below 500 or
  the visibility below 1; IFR exactly when neither holds and the ceiling is below 1000 or
  the visibility below 3; MVFR exactly when neither of these holds and the ceiling is below
  3000 or the visibility below 5; VFR exactly in the remaining case. The comparisons are
  strict: visibility 1.0 with ceiling 500 is IFR.
\<close>

theorem determine_flight_conditions_bands:
  "(let ceiling = (case c of None \<Rightarrow> 10000 | Some n \<Rightarrow> n) in
      (determine_flight_conditions v c = ''LIFR'') = (ceiling < 500 \<or> v < 1)
    \<and> (determine_flight_conditions v c = ''IFR'')
        = (500 \<le> ceiling \<and> 1 \<le> v \<and> (ceiling < 1000 \<or> v < 3))
    \<and> (determine_flight_conditions v c = ''MVFR'')
        = (1000 \<le> ceiling \<and> 3 \<le> v \<and> (ceiling < 3000 \<or> v < 5))
    \<and> (determine_flight_conditions v c = ''VFR'') = (3000 \<le> ceiling \<and> 5 \<le> v))
   \<and> determine_flight_conditions 1 (Some 500) = ''IFR''"
  by (auto simp: determine_flight_conditions_def Let_def split: option.splits)

subsection \<open>Health bands of the parameters\<close>

text \<open>
  C3 says that wind speed above 30 knots is in the ERROR band. The wind evaluator does
  not return there: it raises \<^verbatim>\<open>AttributeError\<close>, at 31 knots for instance, and for no
  wind speed does it return the ERROR band. The rest of C3 holds: temperature is ERROR
  exactly below -20 or above 40, WARN exactly when below -10 or above 35 and not ERROR,
  HEALTHY otherwise; visibility is ERROR below 1, WARN from 1 to below 5, HEALTHY from 5;
  wind speed is WARN above 15 up to 30 and HEALTHY up to 15.
\<close>

theorem health_bands:
  "get_health_status_for_wind 31 = Inl (AttributeError ''ERROR'')
 \<and> (get_health_status_for_wind w = Inl (AttributeError ''ERROR'')) = (w > 30)
 \<and> map_sum id health_band (get_health_status_for_wind w) \<noteq> Inr BAND_ERROR
 \<and> (map_sum id health_band (get_health_status_for_wind w) = Inr BAND_WARN)
      = (w > 15 \<and> w \<le> 30)
 \<and> (map_sum id health_band (get_health_status_for_wind w) = Inr BAND_HEALTHY) = (w \<le> 15)
 \<and> (health_band (get_health_status_for_temperature t) = BAND_ERROR) = (t < -20 \<or> t > 40)
 \<and> (health_band (get_health_status_for_temperature t) = BAND_WARN)
      = ((t < -10 \<or> t > 35) \<and> -20 \<le> t \<and> t \<le> 40)
 \<and> (health_band (get_health_status_for_temperature t) = BAND_HEALTHY) = (-10 \<le> t \<and> t \<le> 35)
 \<and> (health_band (get_health_status_for_visibility v) = BAND_ERROR) = (v < 1)
 \<and> (health_band (get_health_status_for_visibility v) = BAND_WARN) = (v < 5 \<and> 1 \<le> v)
 \<and> (health_band (get_health_status_for_visibility v) = BAND_HEALTHY) = (5 \<le> v)"
  by (auto simp: get_health_status_for_temperature_def get_health_status_for_wind_def
        get_health_status_for_visibility_def)

text \<open>
  C4, as stated, fails: the temperature comparisons are strict as well, so temperature
  exactly -20 and exactly 40 are not in the ERROR band, and exactly -10 and exactly 35 are
  not in the WARN band.
\<close>

theorem temperature_boundary_counterexample:
  "health_band (get_health_status_for_temperature (-20)) \<noteq> BAND_ERROR
 \<and> health_band (get_health_status_for_temperature 40) \<noteq> BAND_ERROR
 \<and> health_band (get_health_status_for_temperature (-10)) \<noteq> BAND_WARN
 \<and> health_band (get_health_status_for_temperature 35) \<noteq> BAND_WARN"
  by (simp add: get_health_status_for_temperature_def)

text \<open>
  C4, amended. Every boundary value falls into the less severe band: temperature exactly
  -20 and exactly 40 are WARN, exactly -10 and exactly 35 are HEALTHY, wind exactly 30 is
  WARN and exactly 15 is HEALTHY, visibility exactly 1 is WARN and exactly 5 is HEALTHY.
\<close>

theorem health_boundaries:
  "health_band (get_health_status_for_temperature (-20)) = BAND_WARN
 \<and> health_band (get_health_status_for_temperature 40) = BAND_WARN
 \<and> health_band (get_health_status_for_temperature (-10)) = BAND_HEALTHY
 \<and> health_band (get_health_status_for_temperature 35) = BAND_HEALTHY
 \<and> map_sum id health_band (get_health_status_for_wind 30) = Inr BAND_WARN
 \<and> map_sum id health_band (get_health_status_for_wind 15) = Inr BAND_HEALTHY
 \<and> health_band (get_health_status_for_visibility 1) = BAND_WARN
 \<and> health_band (get_health_status_for_visibility 5) = BAND_HEALTHY"
  by (simp add: get_health_status_for_temperature_def get_health_status_for_wind_def
        get_health_status_for_visibility_def)

subsection \<open>The visibility default\<close>

text \<open>
  C5 says that a present visibility of 0.0 with no ceiling classifies as LIFR. The
  classifier does so when it is given 0.0, but the observation path passes it
  \<^verbatim>\<open>visibility or 10.0\<close>, which replaces 0.0 as it replaces \<open>None\<close>: the stored flight
  condition is VFR. The truthiness test of \<^verbatim>\<open>_get_ceiling_feet\<close> does the same to an
  overcast layer at 0 feet: the ceiling is taken as absent, and the station is VFR where
  the classifier on ceiling 0 gives LIFR.
\<close>

theorem zero_visibility_defaulted:
  "observation_flight_condition (Some 0) [] = ''VFR''
 \<and> determine_flight_conditions 0 (get_ceiling_feet []) = ''LIFR''
 \<and> observation_flight_condition None [] = ''VFR''
 \<and> observation_flight_condition (Some 10) [\<lparr>coverage = ''OVC'', altitude_ft = Some 0\<rparr>] = ''VFR''
 \<and> determine_flight_conditions 10 (Some 0) = ''LIFR''"
  by (simp add: observation_flight_condition_def or_default_def determine_flight_conditions_def)

subsection \<open>The synthesized entity\<close>

lemma create_weather_entity_Inr:
  assumes "create_weather_entity ext time_now icao airport w = Inr e"
  shows "disposition (mil_view e) = get_disposition_for_condition
           (case flight_condition w of None \<Rightarrow> ''Unknown'' | Some fc \<Rightarrow> fc)"
    and "health_status (health e) = get_health_status_for_condition
           (case flight_condition w of None \<Rightarrow> ''Unknown'' | Some fc \<Rightarrow> fc)"
  using assms
  by (auto simp: create_weather_entity_def Let_def split: sum.splits option.splits)

text \<open>
  C2. The disposition mapping is total: VFR gives ASSUMED_FRIENDLY, MVFR gives SUSPICIOUS,
  and every other value (IFR, LIFR, anything unrecognized) gives HOSTILE; and the
  disposition of every synthesized entity is this function of the flight category the
  entity was built from (\<^verbatim>\<open>weather.get('flight_condition', 'Unknown')\<close>).
\<close>

theorem disposition_total:
  "get_disposition_for_condition ''VFR'' = ASSUMED_FRIENDLY
 \<and> get_disposition_for_condition ''MVFR'' = SUSPICIOUS
 \<and> get_disposition_for_condition ''IFR'' = HOSTILE
 \<and> get_disposition_for_condition ''LIFR'' = HOSTILE
 \<and> (fc \<noteq> ''VFR'' \<and> fc \<noteq> ''MVFR'' \<longrightarrow> get_disposition_for_condition fc = HOSTILE)
 \<and> (create_weather_entity ext time_now icao airport w = Inr e \<longrightarrow>
      disposition (mil_view e) = get_disposition_for_condition
        (case flight_condition w of None \<Rightarrow> ''Unknown'' | Some c \<Rightarrow> c))"
  using create_weather_entity_Inr(1)[of ext time_now icao airport w e]
  by (simp add: get_disposition_for_condition_def)

theorem disposition_total_witness:
  "\<exists>e. create_weather_entity example_externals 0 ''KBGR'' example_airport example_weather = Inr e
     \<and> disposition (mil_view e) = SUSPICIOUS
     \<and> ''Unknown'' \<noteq> ''VFR'' \<and> ''Unknown'' \<noteq> ''MVFR''
     \<and> get_disposition_for_condition ''Unknown'' = HOSTILE"
proof -
  obtain e where e:
    "create_weather_entity example_externals 0 ''KBGR'' example_airport example_weather = Inr e"
    by (simp add: create_weather_entity_def example_airport_def example_weather_def
          sparse_weather_def get_health_status_for_wind_def subscript_def Let_def)
  have fc: "''Unknown'' \<noteq> ''VFR'' \<and> ''Unknown'' \<noteq> ''MVFR''" by simp
  from disposition_total[of "''Unknown''" example_externals 0 "''KBGR''"
         example_airport example_weather e] e fc
  show ?thesis by (simp add: example_weather_def get_disposition_for_condition_def)
qed



lemma create_weather_entity_components:
  assumes "create_weather_entity ext time_now icao airport w = Inr e"
  shows "components (health e) =
     (let fc = (case flight_condition w of None \<Rightarrow> ''Unknown'' | Some c \<Rightarrow> c) in
      (if fc \<noteq> [] then
         [\<lparr>component_id = icao @ ''_flight_condition'', component_name = ''Flight Condition'',
           component_health = get_health_status_for_condition fc,
           messages = [\<lparr>message = ''Current flight condition: '' @ fc,
                        status = get_health_status_for_condition fc\<rparr>]\<rparr>]
       else [])
      @ (case temperature_c w of None \<Rightarrow> [] | Some c \<Rightarrow>
         [\<lparr>component_id = Entity_entity_id ext, component_name = ''Temperature'',
           component_health = get_health_status_for_temperature c,
           messages = [\<lparr>message = ''Current temperature: '' @ format_1f ext c
                          @ degree_sign @ ''C ('' @ format_1f ext ((c * 9 / 5) + 32)
                          @ degree_sign @ ''F)'',
                        status = get_health_status_for_temperature c\<rparr>]\<rparr>])
      @ (case wind_speed_kt w of None \<Rightarrow> [] | Some x \<Rightarrow>
         [\<lparr>component_id = Entity_entity_id ext, component_name = ''Wind Speed'',
           component_health = (if x > 15 then WARN else HEALTHY),
           messages = [\<lparr>message = ''Current wind speed: '' @ str_float ext x @ '' knots'',
                        status = (if x > 15 then WARN else HEALTHY)\<rparr>]\<rparr>])
      @ (case visibility_miles w of None \<Rightarrow> [] | Some v \<Rightarrow>
         [\<lparr>component_id = Entity_entity_id ext, component_name = ''Visibility'',
           component_health = get_health_status_for_visibility v,
           messages = [\<lparr>message = ''Current visibility: '' @ str_float ext v @ '' miles'',
                        status = get_health_status_for_visibility v\<rparr>]\<rparr>]))"
  using assms
  by (auto simp: create_weather_entity_def Let_def get_health_status_for_wind_def
           split: sum.splits option.splits if_splits)

lemma create_weather_entity_component_names:
  assumes "create_weather_entity ext time_now icao airport w = Inr e"
  shows "map component_name (components (health e)) =
      (if (case flight_condition w of None \<Rightarrow> ''Unknown'' | Some c \<Rightarrow> c) \<noteq> []
       then [''Flight Condition''] else [])
      @ (if temperature_c w \<noteq> None then [''Temperature''] else [])
      @ (if wind_speed_kt w \<noteq> None then [''Wind Speed''] else [])
      @ (if visibility_miles w \<noteq> None then [''Visibility''] else [])"
  by (cases "temperature_c w"; cases "wind_speed_kt w"; cases "visibility_miles w")
     (simp_all add: create_weather_entity_components[OF assms] Let_def)

text \<open>
  C6. The overall health of every synthesized entity is the category health of the flight
  category it was built from: HEALTHY for VFR, WARN for MVFR, the ERROR band for IFR and
  LIFR, OFFLINE for any other value. It is the value that the flight-condition component
  carries, and no other parameter enters it.
\<close>

theorem overall_health_is_category_health:
  "get_health_status_for_condition ''VFR'' = HEALTHY
 \<and> get_health_status_for_condition ''MVFR'' = WARN
 \<and> health_band (get_health_status_for_condition ''IFR'') = BAND_ERROR
 \<and> health_band (get_health_status_for_condition ''LIFR'') = BAND_ERROR
 \<and> (fc \<noteq> ''VFR'' \<and> fc \<noteq> ''MVFR'' \<and> fc \<noteq> ''IFR'' \<and> fc \<noteq> ''LIFR''
      \<longrightarrow> get_health_status_for_condition fc = OFFLINE)
 \<and> (create_weather_entity ext time_now icao airport w = Inr e \<longrightarrow>
      health_status (health e) = get_health_status_for_condition
        (case flight_condition w of None \<Rightarrow> ''Unknown'' | Some c \<Rightarrow> c)
    \<and> (\<forall>c \<in> set (components (health e)).
          component_name c = ''Flight Condition'' \<longrightarrow>
          component_health c = health_status (health e)))"
proof -
  have "create_weather_entity ext time_now icao airport w = Inr e \<Longrightarrow>
      (\<forall>c \<in> set (components (health e)).
          component_name c = ''Flight Condition'' \<longrightarrow>
          component_health c = health_status (health e))"
    using create_weather_entity_Inr(2)[of ext time_now icao airport w e]
          create_weather_entity_components[of ext time_now icao airport w e]
    by (auto simp: Let_def split: option.splits if_splits)
  then show ?thesis
    using create_weather_entity_Inr(2)[of ext time_now icao airport w e]
    by (simp add: get_health_status_for_condition_def)
qed

theorem overall_health_is_category_health_witness:
  "\<exists>e. create_weather_entity example_externals 0 ''KBGR'' example_airport example_weather = Inr e
     \<and> health_status (health e) = WARN
     \<and> (\<exists>c \<in> set (components (health e)).
           component_name c = ''Flight Condition'' \<and> component_health c = WARN)
     \<and> ''Unknown'' \<noteq> ''VFR'' \<and> ''Unknown'' \<noteq> ''MVFR'' \<and> ''Unknown'' \<noteq> ''IFR''
     \<and> ''Unknown'' \<noteq> ''LIFR'' \<and> get_health_status_for_condition ''Unknown'' = OFFLINE"
proof -
  obtain e where e:
    "create_weather_entity example_externals 0 ''KBGR'' example_airport example_weather = Inr e"
    by (simp add: create_weather_entity_def example_airport_def example_weather_def
          sparse_weather_def get_health_status_for_wind_def subscript_def Let_def)
  have fc: "''Unknown'' \<noteq> ''VFR'' \<and> ''Unknown'' \<noteq> ''MVFR'' \<and> ''Unknown'' \<noteq> ''IFR''
     \<and> ''Unknown'' \<noteq> ''LIFR''" by simp
  have c: "\<exists>c \<in> set (components (health e)). component_name c = ''Flight Condition''"
    using create_weather_entity_components[OF e] by (simp add: example_weather_def Let_def)
  from overall_health_is_category_health[of "''Unknown''" example_externals 0 "''KBGR''"
         example_airport example_weather e] e fc c
  show ?thesis by (auto simp: example_weather_def get_health_status_for_condition_def)
qed



text \<open>
  C10. In every synthesized entity the flight-condition component has the identifier
  \<open>icao @ ''_flight_condition''\<close>, while the temperature, wind-speed and visibility
  components all have the value of the class attribute \<^verbatim>\<open>Entity.entity_id\<close> as their
  identifier, whatever the station: these components have one identifier among
  themselves and across the entities of any two stations.
\<close>

theorem component_ids:
  "(create_weather_entity ext time_now icao airport w = Inr e \<longrightarrow>
      (\<forall>c \<in> set (components (health e)).
         (component_name c = ''Flight Condition'' \<longrightarrow>
            component_id c = icao @ ''_flight_condition'')
       \<and> (component_name c \<in> {''Temperature'', ''Wind Speed'', ''Visibility''} \<longrightarrow>
            component_id c = Entity_entity_id ext)))
 \<and> (create_weather_entity ext time_now icao airport w = Inr e
      \<and> create_weather_entity ext time_now' icao' airport' w' = Inr e' \<longrightarrow>
      (\<forall>c \<in> set (components (health e)). \<forall>c' \<in> set (components (health e')).
         component_name c \<in> {''Temperature'', ''Wind Speed'', ''Visibility''}
         \<and> component_name c' \<in> {''Temperature'', ''Wind Speed'', ''Visibility''} \<longrightarrow>
         component_id c = component_id c'))"
proof -
  have ids: "\<forall>c \<in> set (components (health x)).
         (component_name c = ''Flight Condition'' \<longrightarrow> component_id c = i @ ''_flight_condition'')
       \<and> (component_name c \<in> {''Temperature'', ''Wind Speed'', ''Visibility''} \<longrightarrow>
            component_id c = Entity_entity_id ext)"
    if "create_weather_entity ext t i a y = Inr x" for t i a y x
    using create_weather_entity_components[OF that]
    by (auto simp: Let_def split: option.splits if_splits)
  show ?thesis
  proof (intro conjI impI)
    assume "create_weather_entity ext time_now icao airport w = Inr e"
    then show "\<forall>c \<in> set (components (health e)).
         (component_name c = ''Flight Condition'' \<longrightarrow>
            component_id c = icao @ ''_flight_condition'')
       \<and> (component_name c \<in> {''Temperature'', ''Wind Speed'', ''Visibility''} \<longrightarrow>
            component_id c = Entity_entity_id ext)"
      by (rule ids)
  next
    assume both: "create_weather_entity ext time_now icao airport w = Inr e
      \<and> create_weather_entity ext time_now' icao' airport' w' = Inr e'"
    show "\<forall>c \<in> set (components (health e)). \<forall>c' \<in> set (components (health e')).
         component_name c \<in> {''Temperature'', ''Wind Speed'', ''Visibility''}
         \<and> component_name c' \<in> {''Temperature'', ''Wind Speed'', ''Visibility''} \<longrightarrow>
         component_id c = component_id c'"
    proof (intro ballI impI)
      fix c c'
      assume c: "c \<in> set (components (health e))"
        and c': "c' \<in> set (components (health e'))"
        and n: "component_name c \<in> {''Temperature'', ''Wind Speed'', ''Visibility''}
         \<and> component_name c' \<in> {''Temperature'', ''Wind Speed'', ''Visibility''}"
      from ids[of time_now icao airport w e] both c n
      have "component_id c = Entity_entity_id ext" by blast
      moreover from ids[of time_now' icao' airport' w' e'] both c' n
      have "component_id c' = Entity_entity_id ext" by blast
      ultimately show "component_id c = component_id c'" by simp
    qed
  qed
qed

theorem component_ids_witness:
  "\<exists>e e'. create_weather_entity example_externals 0 ''KBGR'' example_airport example_weather
             = Inr e
     \<and> create_weather_entity example_externals 0 ''KPWM'' example_airport sparse_weather = Inr e'
     \<and> map (\<lambda>c. (component_name c, component_id c)) (components (health e))
         = [(''Flight Condition'', ''KBGR_flight_condition''),
            (''Temperature'', ''Entity.entity_id''),
            (''Wind Speed'', ''Entity.entity_id''),
            (''Visibility'', ''Entity.entity_id'')]
     \<and> (\<forall>c \<in> set (components (health e)). \<forall>c' \<in> set (components (health e')).
         component_name c \<in> {''Temperature'', ''Wind Speed'', ''Visibility''}
         \<and> component_name c' \<in> {''Temperature'', ''Wind Speed'', ''Visibility''} \<longrightarrow>
         component_id c = component_id c')"
proof -
  obtain e where e:
    "create_weather_entity example_externals 0 ''KBGR'' example_airport example_weather = Inr e"
    by (simp add: create_weather_entity_def example_airport_def example_weather_def
          sparse_weather_def get_health_status_for_wind_def subscript_def Let_def)
  obtain e' where e':
    "create_weather_entity example_externals 0 ''KPWM'' example_airport sparse_weather = Inr e'"
    by (simp add: create_weather_entity_def example_airport_def example_weather_def
          sparse_weather_def get_health_status_for_wind_def subscript_def Let_def)
  have names: "map component_name (components (health e))
         = [''Flight Condition'', ''Temperature'', ''Wind Speed'', ''Visibility'']"
    using create_weather_entity_component_names[OF e] by (simp add: example_weather_def)
  then obtain c1 c2 c3 c4 where cs: "components (health e) = [c1, c2, c3, c4]"
    and n1: "component_name c1 = ''Flight Condition''"
    and n2: "component_name c2 = ''Temperature''"
    and n3: "component_name c3 = ''Wind Speed''"
    and n4: "component_name c4 = ''Visibility''"
    by auto
  note inst = component_ids[of example_externals 0 "''KBGR''" example_airport example_weather e
         0 "''KPWM''" example_airport sparse_weather e']
  note all = inst[THEN conjunct1, THEN mp, OF e]
  note cross = inst[THEN conjunct2, THEN mp, OF conjI[OF e e']]
  have i1: "component_id c1 = ''KBGR_flight_condition''"
    using all n1 by (simp add: cs)
  have i2: "component_id c2 = ''Entity.entity_id''"
    using all n2 by (simp add: cs example_externals_def)
  have i3: "component_id c3 = ''Entity.entity_id''"
    using all n3 by (simp add: cs example_externals_def)
  have i4: "component_id c4 = ''Entity.entity_id''"
    using all n4 by (simp add: cs example_externals_def)
  have m: "map (\<lambda>c. (component_name c, component_id c)) (components (health e))
         = [(''Flight Condition'', ''KBGR_flight_condition''),
            (''Temperature'', ''Entity.entity_id''),
            (''Wind Speed'', ''Entity.entity_id''),
            (''Visibility'', ''Entity.entity_id'')]"
    by (simp only: cs list.map n1 n2 n3 n4 i1 i2 i3 i4)
  show ?thesis
    by (intro exI conjI) (rule e, rule e', rule m, rule cross)
qed

subsection \<open>Isolation of failures within a batch\<close>

lemma station_body_fst:
  "fst (station_body ext clock airports sink icao data sent)
     = sent @ station_attempt ext clock airports (icao, data)"
  by (auto simp: station_body_def station_attempt_def publish_entity_def
           split: option.splits sum.splits)

lemma station_body_snd:
  "(snd (station_body ext clock airports sink icao data sent) = Inr True)
     = station_published ext clock airports sink (icao, data)"
  by (auto simp: station_body_def station_attempt_def station_published_def publish_entity_def
           split: option.splits sum.splits)

lemma publish_loop_eq:
  "publish_loop ext clock airports sink count sent metar_data =
     (sent @ concat (map (station_attempt ext clock airports) metar_data),
      Inr (count + length (filter (station_published ext clock airports sink) metar_data)))"
proof (induction metar_data arbitrary: count sent)
  case Nil
  show ?case by simp
next
  case (Cons station rest)
  obtain icao data where station: "station = (icao, data)"
    by (cases station)
  obtain sent' r where body: "station_body ext clock airports sink icao data sent = (sent', r)"
    by (cases "station_body ext clock airports sink icao data sent")
  have sent': "sent' = sent @ station_attempt ext clock airports (icao, data)"
    using station_body_fst[of ext clock airports sink icao data sent] body by simp
  have r: "(r = Inr True) = station_published ext clock airports sink (icao, data)"
    using station_body_snd[of ext clock airports sink icao data sent] body by simp
  show ?case
  proof (cases r)
    case (Inl e)
    with r have "\<not> station_published ext clock airports sink (icao, data)" by simp
    with Inl show ?thesis
      by (simp add: station body sent' Cons.IH)
  next
    case (Inr b)
    with r have "station_published ext clock airports sink (icao, data) = b" by simp
    with Inr show ?thesis
      by (cases b) (simp_all add: station body sent' Cons.IH)
  qed
qed

text \<open>
  C8. \<open>publish_weather_entities\<close> never ends in an exception: it returns a count, the
  number of stations of the batch whose publish succeeded. What it hands to the sink is,
  station after station, what each station standing alone would hand to it, so every
  station is attempted whatever happened to the others. In particular a station that
  fails, in synthesis or in the sink, adds nothing to the count, and the stations before
  and after it are attempted and counted as if it were not there.
\<close>

theorem publish_failure_isolated:
  "fst (publish_weather_entities ext clock airports sink metar_data)
     = concat (map (station_attempt ext clock airports) metar_data)
 \<and> snd (publish_weather_entities ext clock airports sink metar_data)
     = Inr (length (filter (station_published ext clock airports sink) metar_data))
 \<and> (\<not> station_published ext clock airports sink station \<longrightarrow>
      fst (publish_weather_entities ext clock airports sink (before @ station # after))
        = fst (publish_weather_entities ext clock airports sink before)
          @ station_attempt ext clock airports station
          @ fst (publish_weather_entities ext clock airports sink after)
    \<and> snd (publish_weather_entities ext clock airports sink (before @ station # after))
        = Inr (length (filter (station_published ext clock airports sink) before)
               + length (filter (station_published ext clock airports sink) after)))"
  by (simp add: publish_weather_entities_def publish_loop_eq)

theorem publish_failure_isolated_witness:
  "\<not> station_published example_externals example_clock example_airports example_sink
       (''KBOS'', example_weather)
 \<and> \<not> station_published example_externals example_clock example_airports example_sink
       (''KPWM'', example_weather)
 \<and> snd (publish_weather_entities example_externals example_clock example_airports example_sink
       example_metar_data) = Inr 1
 \<and> map entity_id (fst (publish_weather_entities example_externals example_clock example_airports
       example_sink example_metar_data)) = [''weather_KPWM'', ''weather_KBGR'']"
proof -
  have a: "station_attempt example_externals example_clock example_airports
             (''KBOS'', example_weather) = []"
    by (simp add: station_attempt_def example_airports_def example_weather_def
          create_weather_entity_def get_health_status_for_wind_def subscript_def Let_def)
  obtain e1 where e1: "station_attempt example_externals example_clock example_airports
             (''KPWM'', example_weather) = [e1]" and id1: "entity_id e1 = ''weather_KPWM''"
    by (simp add: station_attempt_def example_airports_def example_weather_def
          example_airport_def create_weather_entity_def get_health_status_for_wind_def
          subscript_def Let_def)
  obtain e2 where e2: "station_attempt example_externals example_clock example_airports
             (''KBGR'', example_weather) = [e2]" and id2: "entity_id e2 = ''weather_KBGR''"
    by (simp add: station_attempt_def example_airports_def example_weather_def
          example_airport_def create_weather_entity_def get_health_status_for_wind_def
          subscript_def Let_def)
  have p0: "\<not> station_published example_externals example_clock example_airports example_sink
       (''KBOS'', example_weather)"
    by (simp add: station_published_def a)
  have p1: "\<not> station_published example_externals example_clock example_airports example_sink
       (''KPWM'', example_weather)"
    by (simp add: station_published_def e1 example_sink_def id1)
  have p2: "station_published example_externals example_clock example_airports example_sink
       (''KBGR'', example_weather)"
    by (simp add: station_published_def e2 example_sink_def id2)
  from publish_failure_isolated[of example_externals example_clock example_airports example_sink
         example_metar_data "(''KPWM'', example_weather)" "[(''KBOS'', example_weather)]"
         "[(''KBGR'', example_weather)]"]
  show ?thesis
    by (simp add: example_metar_data_def p0 p1 p2 a e1 e2 id1 id2)
qed

subsection \<open>Recovery of the integration loops\<close>

text \<open>
  C9, as stated, fails. In \<open>start\<close> with the default interval of 30 minutes, the sleep
  after a cycle that raised is the normal 1800 seconds, the same as after a cycle that
  completed; in \<open>run_integration\<close> with an interval of 5 minutes the fixed recovery sleep
  of 300 seconds equals the normal one. Neither is shorter than the normal interval.
\<close>

theorem recovery_wait_counterexample:
  "start 30 [RaisedException, Completed] = [Cycle, LogError, Sleep 1800, Cycle, Sleep 1800]
 \<and> run_integration 5 [RaisedException, Completed]
     = [Cycle, LogError, Sleep 300, Cycle, Sleep 300]"
  by simp

text \<open>
  C9, amended. As long as no \<^verbatim>\<open>KeyboardInterrupt\<close> has occurred, a cycle that raises an
  \<^verbatim>\<open>Exception\<close> is followed by a log entry, a sleep and the next cycle, in both loops.
  In \<open>run_integration\<close> that sleep is a fixed 300 seconds, against
  \<open>update_interval_minutes * 60\<close> after a completed cycle, hence shorter exactly when the
  interval exceeds 5 minutes; in \<open>start\<close> it is the normal
  \<open>update_interval_minutes * 60\<close> seconds.
\<close>

theorem recovery_wait:
  "RaisedKeyboardInterrupt \<notin> set before \<Longrightarrow>
     run_integration iv (before @ RaisedException # next_outcome # rest)
       = run_integration iv before @ [Cycle, LogError, Sleep 300, Cycle]
         @ tl (run_integration iv (next_outcome # rest))
   \<and> run_integration iv (before @ Completed # next_outcome # rest)
       = run_integration iv before @ [Cycle, Sleep (iv * 60), Cycle]
         @ tl (run_integration iv (next_outcome # rest))
   \<and> ((300 < iv * 60) = (5 < iv))
   \<and> start iv (before @ RaisedException # next_outcome # rest)
       = start iv before @ [Cycle, LogError, Sleep (iv * 60), Cycle]
         @ tl (start iv (next_outcome # rest))
   \<and> start iv (before @ Completed # next_outcome # rest)
       = start iv before @ [Cycle, Sleep (iv * 60), Cycle]
         @ tl (start iv (next_outcome # rest))"
proof (induction before)
  case Nil
  show ?case by (cases next_outcome) auto
next
  case (Cons a before)
  then show ?case by (cases a) auto
qed

theorem recovery_wait_witness:
  "RaisedKeyboardInterrupt \<notin> set [Completed]
 \<and> run_integration 30 [Completed, RaisedException, Completed]
      = [Cycle, Sleep 1800, Cycle, LogError, Sleep 300, Cycle, Sleep 1800]
 \<and> start 30 [Completed, RaisedException, Completed]
      = [Cycle, Sleep 1800, Cycle, LogError, Sleep 1800, Cycle, Sleep 1800]"
proof -
  have h: "RaisedKeyboardInterrupt \<notin> set [Completed]" by simp
  from recovery_wait[OF h, of 30 Completed "[]"] h show ?thesis by simp
qed

end
